theory Spec2Isabelle
  imports Complex_Main
begin

section \<open>Data model\<close>

text \<open>
  One entry of the list the model sends back (the element type of \<open>setTimecodes\<close>'s
  argument in the application component): \<open>{time: string, text?: string,
  objects?: string[], value?: number}\<close>. An optional property is an \<open>option\<close>;
  the fields \<open>text\<close> and \<open>value\<close> carry a suffix because the bare words are
  reserved (as is \<open>file\<close>, the state cell called \<open>file_info\<close> below). JavaScript
  numbers are taken as reals.
\<close>

record annotation =
  time :: string
  text_field :: "string option"
  objects :: "string list option"
  value_field :: "real option"

text \<open>The argument object of a function call, \<open>{timecodes: [...]}\<close>.\<close>

record call_args =
  timecodes :: "annotation list"

text \<open>One element of \<open>resp.functionCalls\<close>.\<close>

record function_call =
  name :: string
  args :: call_args

text \<open>
  The part of \<open>GenerateContentResponse\<close> that \<open>onModeSelect\<close> reads:
  \<open>resp.functionCalls\<close> and \<open>resp.text\<close>, both optional.
\<close>

record response =
  functionCalls :: "function_call list option"
  resp_text :: "string option"

text \<open>\<open>UploadedFileInfo\<close> of api.ts.\<close>

record uploaded_file_info =
  uri :: string
  mimeType :: string

text \<open>The two properties of a browser \<open>File\<close> that the code reads.\<close>

record dropped_file =
  file_name :: string
  file_type :: string

text \<open>A line written to the console, with the level it was written at.\<close>

datatype console_entry =
  ConsoleLog string
  | ConsoleWarn string
  | ConsoleError string

text \<open>A call of \<open>generateContent(currentPrompt, functions(...), file)\<close>.\<close>

record generate_call =
  gen_prompt :: string
  gen_file :: uploaded_file_info

text \<open>
  The state cells of the \<open>App\<close> component (the \<open>useState\<close> hooks), followed
  by the effects on the outside world that the handlers have: the console, the
  calls made to \<open>generateContent\<close> and \<open>uploadFile\<close>, the object URLs revoked and
  the number of \<open>scrollTo\<close> calls. \<open>scrollRefCurrent\<close> says whether
  \<open>scrollRef.current\<close> is attached.
\<close>

record app =
  vidUrl :: "string option"
  file_info :: "uploaded_file_info option"
  timecodeList :: "annotation list option"
  requestedTimecode :: "real option"
  selectedMode :: string
  activeMode :: "string option"
  isLoading :: bool
  isLoadingVideo :: bool
  videoError :: bool
  customPrompt :: string
  chartMode :: string
  chartPrompt :: string
  chartLabel :: string
  scrollRefCurrent :: bool
  console :: "console_entry list"
  generateCalls :: "generate_call list"
  uploadCalls :: "dropped_file list"
  revokedUrls :: "string list"
  scrolls :: nat

text \<open>
  The static mode catalogue \<open>modes\<close> is imported from a module that is not part
  of the sources at hand, so it is a parameter of the model. \<open>modes[mode].prompt\<close>
  is a fixed string for plain modes and a function of a string for the modes
  \<open>Custom\<close> and \<open>Chart\<close>; \<open>modes[mode].subModes\<close> maps a chart sub-mode to its
  phrase.
\<close>

record mode_entry =
  prompt_text :: string
  prompt_fn :: "string \<Rightarrow> string"
  subModes :: "string \<Rightarrow> string"

type_synonym modes = "string \<Rightarrow> mode_entry"

section \<open>Function-call router\<close>

text \<open>
  \<open>t.text.replace(/\\'/g, "'")\<close>: a global replace scans from the left and
  replaces each occurrence of backslash, quote by a quote, going on after the
  occurrence. \<open>CHR 0x5C\<close> is the backslash and \<open>CHR 0x27\<close> the single quote.
\<close>

fun replaceEscapedQuote :: "string \<Rightarrow> string" where
  "replaceEscapedQuote (c # d # rest) =
     (if c = CHR 0x5C \<and> d = CHR 0x27 then CHR 0x27 # replaceEscapedQuote rest
      else c # replaceEscapedQuote (d # rest))"
| "replaceEscapedQuote cs = cs"

text \<open>
  The function mapped over the list by \<open>setTimecodes\<close>:
  \<open>{...t, text: t.text ? t.text.replace(/\\'/g, "'") : ''}\<close>. A missing text and
  the empty string are both falsy.
\<close>

definition normaliseText :: "annotation \<Rightarrow> annotation" where
  "normaliseText t =
     t\<lparr>text_field :=
        (case text_field t of
           None \<Rightarrow> Some []
         | Some x \<Rightarrow> if x = [] then Some [] else Some (replaceEscapedQuote x))\<rparr>"

definition setTimecodes :: "call_args \<Rightarrow> app \<Rightarrow> app" where
  "setTimecodes a s = s\<lparr>timecodeList := Some (map normaliseText (timecodes a))\<rparr>"

text \<open>
  The handler written inline for \<open>set_timecodes_with_numeric_values\<close>:
  \<open>({timecodes}) => setTimecodeList(timecodes)\<close>.
\<close>

definition setTimecodesNumeric :: "call_args \<Rightarrow> app \<Rightarrow> app" where
  "setTimecodesNumeric a s = s\<lparr>timecodeList := Some (timecodes a)\<rparr>"

text \<open>
  The object literal \<open>fnMap\<close> of \<open>onModeSelect\<close>, with its three own
  properties in the order of the source.
\<close>

definition fnMap :: "(string \<times> (call_args \<Rightarrow> app \<Rightarrow> app)) list" where
  "fnMap =
     [(''set_timecodes'', setTimecodes),
      (''set_timecodes_with_objects'', setTimecodes),
      (''set_timecodes_with_numeric_values'', setTimecodesNumeric)]"

text \<open>
  What the property access \<open>fnMap[call.name]\<close> can yield, by what the call
  \<open>fnMap[call.name](call.args)\<close> of line 103 then does: a handler of the map
  runs; \<open>Returns\<close> is an inherited function that returns without writing any
  state of the component; \<open>Throws\<close> is an inherited value on which the call
  throws a \<open>TypeError\<close>.
\<close>

datatype property =
  Handler "call_args \<Rightarrow> app \<Rightarrow> app"
  | Returns
  | Throws

text \<open>
  An object literal inherits the properties of \<open>Object.prototype\<close>, and the
  property access finds them too. These are the twelve of the ECMAScript
  standard. \<open>__proto__\<close> yields the prototype object, which is no function,
  and \<open>__defineGetter__\<close> and \<open>__defineSetter__\<close> reject the missing second
  argument; the nine others accept the one argument and return.
\<close>

definition objectPrototype :: "(string \<times> property) list" where
  "objectPrototype =
     [(''constructor'', Returns),
      (''__defineGetter__'', Throws),
      (''__defineSetter__'', Throws),
      (''hasOwnProperty'', Returns),
      (''__lookupGetter__'', Returns),
      (''__lookupSetter__'', Returns),
      (''isPrototypeOf'', Returns),
      (''propertyIsEnumerable'', Returns),
      (''toString'', Returns),
      (''valueOf'', Returns),
      (''__proto__'', Throws),
      (''toLocaleString'', Returns)]"

text \<open>\<open>fnMap[n]\<close>: the own properties first, then the inherited ones.\<close>

definition fnMapGet :: "string \<Rightarrow> property option" where
  "fnMapGet n =
     (case map_of fnMap n of
        Some fn \<Rightarrow> Some (Handler fn)
      | None \<Rightarrow> map_of objectPrototype n)"

text \<open>
  Lines 94 to 106 of the component: the branch taken when the response holds a
  function call. Every value that the property access finds is truthy, so the
  call of line 103 is made; the \<open>else\<close> branch is left for the names that are
  found nowhere. These lines stand in the \<open>try\<close> block: when the call throws,
  the \<open>catch\<close> block of lines 115 to 117 writes its line to the console, the
  second argument of which is the error.
\<close>

definition dispatch :: "function_call \<Rightarrow> app \<Rightarrow> app" where
  "dispatch call s =
     (case fnMapGet (name call) of
        Some (Handler fn) \<Rightarrow> fn (args call) s
      | Some Returns \<Rightarrow> s
      | Some Throws \<Rightarrow>
          s\<lparr>console := console s @ [ConsoleError ''Error generating content: TypeError'']\<rparr>
      | None \<Rightarrow>
          s\<lparr>console := console s @
                [ConsoleError (''Function '' @ name call @ '' not found in function map.'')]\<rparr>)"

section \<open>Analysis request: \<open>onModeSelect\<close>\<close>

text \<open>
  \<open>onModeSelect\<close> is an \<open>async\<close> function with one \<open>await\<close>. It is modelled
  as two transitions of the application state: \<open>onModeSelect_start\<close> runs the
  code up to the \<open>await\<close> (lines 62 to 90) and \<open>onModeSelect_resume\<close> the code
  after it (lines 92 to 123), once the request has been answered. Between the
  two any other handler may run, as in the browser's event loop. Each state
  setter writes the cell it belongs to.
\<close>

definition isCustomMode :: "app \<Rightarrow> bool" where
  "isCustomMode s = (selectedMode s = ''Custom'')"

definition isChartMode :: "app \<Rightarrow> bool" where
  "isChartMode s = (selectedMode s = ''Chart'')"

definition isCustomChartMode :: "app \<Rightarrow> bool" where
  "isCustomChartMode s = (isChartMode s \<and> chartMode s = ''Custom'')"

definition hasSubMode :: "app \<Rightarrow> bool" where
  "hasSubMode s = (isCustomMode s \<or> isChartMode s)"

definition currentPrompt :: "modes \<Rightarrow> app \<Rightarrow> string \<Rightarrow> string" where
  "currentPrompt m s mode =
     (if isCustomMode s then prompt_fn (m mode) (customPrompt s)
      else if isChartMode s then
        prompt_fn (m mode)
          (if isCustomChartMode s then chartPrompt s else subModes (m mode) (chartMode s))
      else prompt_text (m mode))"

definition onModeSelect_start :: "modes \<Rightarrow> app \<Rightarrow> string \<Rightarrow> app" where
  "onModeSelect_start m s mode =
     (case file_info s of
        None \<Rightarrow> s\<lparr>videoError := True\<rparr>
      | Some f \<Rightarrow>
          s\<lparr>activeMode := Some mode,
            isLoading := True,
            chartLabel :=
              (if isChartMode s \<and> \<not> isCustomChartMode s
               then subModes (m mode) (chartMode s) else chartPrompt s),
            generateCalls := generateCalls s @
              [\<lparr>gen_prompt = currentPrompt m s mode, gen_file = f\<rparr>]\<rparr>)"

text \<open>\<open>resp.functionCalls?.[0]\<close>: absent when the list is missing or empty.\<close>

definition firstCall :: "response \<Rightarrow> function_call option" where
  "firstCall resp =
     (case functionCalls resp of
        None \<Rightarrow> None
      | Some [] \<Rightarrow> None
      | Some (c # cs) \<Rightarrow> Some c)"

text \<open>The \<open>finally\<close> block, lines 118 to 123.\<close>

definition finallyBlock :: "app \<Rightarrow> app" where
  "finallyBlock s =
     (let s1 = s\<lparr>isLoading := False\<rparr>
      in if scrollRefCurrent s1 then s1\<lparr>scrolls := Suc (scrolls s1)\<rparr> else s1)"

text \<open>
  The outcome of the awaited request is \<open>Inl e\<close> when \<open>generateContent\<close>
  rejects with the error \<open>e\<close> and \<open>Inr resp\<close> when it resolves. An empty
  \<open>resp.text\<close> is falsy.
\<close>

definition onModeSelect_resume :: "app \<Rightarrow> string + response \<Rightarrow> app" where
  "onModeSelect_resume s outcome =
     finallyBlock
       (case outcome of
          Inl e \<Rightarrow> s\<lparr>console := console s @ [ConsoleError (''Error generating content: '' @ e)]\<rparr>
        | Inr resp \<Rightarrow>
            (case firstCall resp of
               Some call \<Rightarrow> dispatch call s
             | None \<Rightarrow>
                 (case resp_text resp of
                    None \<Rightarrow> s
                  | Some t \<Rightarrow>
                      if t = [] then s
                      else s\<lparr>console := console s @ [ConsoleLog (''Model response text: '' @ t)]\<rparr>)))"

subsection \<open>The triggers of \<open>onModeSelect\<close> in the rendered page\<close>

text \<open>
  The mode selector is rendered when \<open>vidUrl && !isLoadingVideo\<close> (line 186);
  inside it the custom-prompt text area is rendered when \<open>hasSubMode\<close> and
  \<open>isCustomMode\<close> hold (lines 189 to 207).
\<close>

definition customPromptShown :: "app \<Rightarrow> bool" where
  "customPromptShown s = (vidUrl s \<noteq> None \<and> \<not> isLoadingVideo s \<and> hasSubMode s \<and> isCustomMode s)"

text \<open>
  \<open>onKeyDown\<close> of the custom-prompt text area, lines 200 to 205: the Enter key
  without Shift calls \<open>onModeSelect(selectedMode)\<close>.
\<close>

definition customPromptKeyDown :: "modes \<Rightarrow> app \<Rightarrow> string \<Rightarrow> bool \<Rightarrow> app" where
  "customPromptKeyDown m s key shiftKey =
     (if customPromptShown s \<and> key = ''Enter'' \<and> \<not> shiftKey
      then onModeSelect_start m s (selectedMode s) else s)"

text \<open>
  The Generate button of the sub-mode view, lines 245 to 262, with its
  \<open>disabled\<close> attribute. \<open>!x.trim()\<close> holds when \<open>x\<close> consists of white space
  only: tab, line feed, vertical tab, form feed, carriage return, space and
  the no-break space \<open>CHR 0xA0\<close>. The white space beyond the 8-bit characters
  has no counterpart in \<open>string\<close>.
\<close>

definition isBlank :: "string \<Rightarrow> bool" where
  "isBlank x =
     list_all
       (\<lambda>c. c \<in> set [CHR 0x09, CHR 0x0A, CHR 0x0B, CHR 0x0C, CHR 0x0D, CHR 0x20, CHR 0xA0]) x"

definition subModeGenerateDisabled :: "app \<Rightarrow> bool" where
  "subModeGenerateDisabled s =
     (isLoading s \<or> file_info s = None \<or>
      (isCustomMode s \<and> isBlank (customPrompt s)) \<or>
      (isChartMode s \<and> isCustomChartMode s \<and> isBlank (chartPrompt s)))"

definition subModeGenerateClick :: "modes \<Rightarrow> app \<Rightarrow> app" where
  "subModeGenerateClick m s =
     (if vidUrl s \<noteq> None \<and> \<not> isLoadingVideo s \<and> hasSubMode s \<and> \<not> subModeGenerateDisabled s
      then onModeSelect_start m s (selectedMode s) else s)"

text \<open>
  The Generate button of the main mode list, lines 300 to 306:
  \<open>disabled={isLoading || !file}\<close>; a disabled button delivers no click.
\<close>

definition generateDisabled :: "app \<Rightarrow> bool" where
  "generateDisabled s = (isLoading s \<or> file_info s = None)"

definition generateClick :: "modes \<Rightarrow> app \<Rightarrow> app" where
  "generateClick m s =
     (if vidUrl s \<noteq> None \<and> \<not> isLoadingVideo s \<and> \<not> hasSubMode s \<and> \<not> generateDisabled s
      then onModeSelect_start m s (selectedMode s) else s)"

section \<open>Upload: \<open>uploadFile\<close> of api.ts\<close>

text \<open>
  The \<open>state\<close> of the file resource returned by \<open>client.files.get\<close>. The
  source names three values; \<open>STATE_UNSPECIFIED\<close> stands for any other one.
\<close>

datatype file_state = PROCESSING | ACTIVE | FAILED | STATE_UNSPECIFIED

record file_resource =
  res_state :: file_state
  res_uri :: string
  res_mimeType :: "string option"

text \<open>
  What \<open>uploadFile\<close> throws: an awaited call of the client rejected, the error
  of line 87 (\<open>File processing failed\<close>), or the error of line 91
  (\<open>File processing did not complete successfully\<close>) with the last state seen.
\<close>

datatype upload_error =
  Rejected string
  | ProcessingFailedError
  | NotActiveError file_state

definition maxRetries :: nat where
  "maxRetries = 12"

text \<open>
  The \<open>while\<close> loop of lines 77 to 82. \<open>get i\<close> is the answer to the \<open>i\<close>-th
  call of \<open>client.files.get\<close>, counted from 0 (the call of line 70); \<open>Inl\<close> is
  a rejected call. The loop returns the last resource and the value of
  \<open>retries\<close>; each iteration first waits 5000 ms.
\<close>

function pollLoop ::
  "(nat \<Rightarrow> string + file_resource) \<Rightarrow> file_resource \<Rightarrow> nat \<Rightarrow> (string + file_resource) \<times> nat" where
  "pollLoop get getFile retries =
     (if res_state getFile = PROCESSING \<and> retries < maxRetries then
        (case get (Suc retries) of
           Inl e \<Rightarrow> (Inl e, Suc retries)
         | Inr r \<Rightarrow> pollLoop get r (Suc retries))
      else (Inr getFile, retries))"
  by pat_completeness auto
termination
  by (relation "measure (\<lambda>(get, getFile, retries). maxRetries - retries)") auto

text \<open>
  One run of \<open>uploadFile\<close>: what it returns or throws, how many status requests
  it made and how long it waited between them.
\<close>

record upload_run =
  outcome :: "upload_error + uploaded_file_info"
  statusRequests :: nat
  waitedMs :: nat

text \<open>Lines 84 to 99: the checks on the final state and the value returned.\<close>

definition finalState :: "dropped_file \<Rightarrow> file_resource \<Rightarrow> upload_error + uploaded_file_info" where
  "finalState f getFile =
     (if res_state getFile = FAILED then Inl ProcessingFailedError
      else if res_state getFile \<noteq> ACTIVE then Inl (NotActiveError (res_state getFile))
      else Inr \<lparr>uri = res_uri getFile,
                mimeType =
                  (case res_mimeType getFile of
                     None \<Rightarrow> file_type f
                   | Some mt \<Rightarrow> if mt = [] then file_type f else mt)\<rparr>)"

text \<open>
  \<open>uploaded\<close> is the answer of \<open>client.files.upload\<close>: \<open>Inr\<close> the resource
  name, \<open>Inl\<close> a rejection.
\<close>

definition uploadFile ::
  "dropped_file \<Rightarrow> string + string \<Rightarrow> (nat \<Rightarrow> string + file_resource) \<Rightarrow> upload_run" where
  "uploadFile f uploaded get =
     (case uploaded of
        Inl e \<Rightarrow> \<lparr>outcome = Inl (Rejected e), statusRequests = 0, waitedMs = 0\<rparr>
      | Inr resource \<Rightarrow>
          (case get 0 of
             Inl e \<Rightarrow> \<lparr>outcome = Inl (Rejected e), statusRequests = 1, waitedMs = 0\<rparr>
           | Inr r0 \<Rightarrow>
               (case pollLoop get r0 0 of
                  (Inl e, retries) \<Rightarrow>
                    \<lparr>outcome = Inl (Rejected e), statusRequests = Suc retries,
                     waitedMs = 5000 * retries\<rparr>
                | (Inr g, retries) \<Rightarrow>
                    \<lparr>outcome = finalState f g, statusRequests = Suc retries,
                     waitedMs = 5000 * retries\<rparr>)))"

section \<open>Upload: the drop handler \<open>uploadVideo\<close>\<close>

text \<open>\<open>droppedFile.type.startsWith('video/')\<close>.\<close>

definition startsWith :: "string \<Rightarrow> string \<Rightarrow> bool" where
  "startsWith x p = (take (length p) x = p)"

text \<open>
  \<open>uploadVideo\<close> is an \<open>async\<close> function with one \<open>await\<close>, of
  \<open>uploadFile(droppedFile)\<close>. \<open>uploadVideo_start\<close> is the code up to it (lines
  126 to 157); its argument \<open>dropped\<close> is \<open>e.dataTransfer.files?.[0]\<close> and
  \<open>objectUrl\<close> is the URL that \<open>URL.createObjectURL\<close> returns for this drop.
\<close>

definition uploadVideo_start :: "app \<Rightarrow> dropped_file option \<Rightarrow> string \<Rightarrow> app" where
  "uploadVideo_start s dropped objectUrl =
     (case dropped of
        None \<Rightarrow>
          s\<lparr>console := console s @ [ConsoleWarn ''No files were dropped or item was not a file.''],
            videoError := True,
            isLoadingVideo := False\<rparr>
      | Some droppedFile \<Rightarrow>
          if \<not> startsWith (file_type droppedFile) ''video/'' then
            s\<lparr>console := console s @ [ConsoleWarn ''Dropped file is not a video type.''],
              videoError := True,
              isLoadingVideo := False,
              vidUrl := None,
              file_info := None,
              timecodeList := None,
              activeMode := None\<rparr>
          else
            s\<lparr>isLoadingVideo := True,
              videoError := False,
              vidUrl := Some objectUrl,
              file_info := None,
              timecodeList := None,
              activeMode := None,
              requestedTimecode := None,
              uploadCalls := uploadCalls s @ [droppedFile]\<rparr>)"

text \<open>
  \<open>uploadVideo_resume\<close> is the code after the \<open>await\<close> (lines 158 to 169), run
  when the upload of the drop that created \<open>objectUrl\<close> has settled with
  \<open>result\<close>. The setters write the cells of the state as it is then.
\<close>

definition uploadVideo_resume :: "app \<Rightarrow> string \<Rightarrow> upload_error + uploaded_file_info \<Rightarrow> app" where
  "uploadVideo_resume s objectUrl result =
     (case result of
        Inr uploadedFileInfo \<Rightarrow>
          s\<lparr>file_info := Some uploadedFileInfo, isLoadingVideo := False\<rparr>
      | Inl uploadError \<Rightarrow>
          s\<lparr>console := console s @ [ConsoleError ''Error during video processing or upload:''],
            videoError := True,
            isLoadingVideo := False,
            revokedUrls := (if objectUrl \<noteq> [] then revokedUrls s @ [objectUrl] else revokedUrls s),
            vidUrl := None,
            file_info := None\<rparr>)"

section \<open>Video player: \<open>formatTime\<close> and \<open>updateTime\<close>\<close>

text \<open>
  A JavaScript number as the player computes with it: a finite value, one of
  the two infinities, or \<open>NaN\<close>. A finite value is carried as a real and the
  operations on finite values are the exact ones; the model has one zero.
\<close>

datatype number = Num real | PosInfinity | NegInfinity | NaN

text \<open>\<open>a / b\<close> on numbers.\<close>

definition jsDivide :: "number \<Rightarrow> number \<Rightarrow> number" where
  "jsDivide a b =
     (case a of
        Num x \<Rightarrow>
          (case b of
             Num y \<Rightarrow>
               if y \<noteq> 0 then Num (x / y)
               else if x = 0 then NaN
               else if 0 < x then PosInfinity else NegInfinity
           | PosInfinity \<Rightarrow> Num 0
           | NegInfinity \<Rightarrow> Num 0
           | NaN \<Rightarrow> NaN)
      | PosInfinity \<Rightarrow>
          (case b of
             Num y \<Rightarrow> if 0 \<le> y then PosInfinity else NegInfinity
           | PosInfinity \<Rightarrow> NaN
           | NegInfinity \<Rightarrow> NaN
           | NaN \<Rightarrow> NaN)
      | NegInfinity \<Rightarrow>
          (case b of
             Num y \<Rightarrow> if 0 \<le> y then NegInfinity else PosInfinity
           | PosInfinity \<Rightarrow> NaN
           | NegInfinity \<Rightarrow> NaN
           | NaN \<Rightarrow> NaN)
      | NaN \<Rightarrow> NaN)"

text \<open>
  \<open>a % b\<close> on numbers: the remainder has the sign of the dividend, the quotient
  being truncated towards zero; an infinite dividend and a zero divisor give
  \<open>NaN\<close>, an infinite divisor gives the dividend.
\<close>

definition jsRemainder :: "number \<Rightarrow> number \<Rightarrow> number" where
  "jsRemainder a b =
     (case a of
        Num x \<Rightarrow>
          (case b of
             Num y \<Rightarrow>
               if y = 0 then NaN
               else Num (x - y * of_int (if x / y < 0 then \<lceil>x / y\<rceil> else \<lfloor>x / y\<rfloor>))
           | PosInfinity \<Rightarrow> Num x
           | NegInfinity \<Rightarrow> Num x
           | NaN \<Rightarrow> NaN)
      | PosInfinity \<Rightarrow> NaN
      | NegInfinity \<Rightarrow> NaN
      | NaN \<Rightarrow> NaN)"

text \<open>\<open>x || 0\<close> on numbers: \<open>NaN\<close> and zero are falsy.\<close>

definition orZero :: "number \<Rightarrow> number" where
  "orZero x = (if x = NaN \<or> x = Num 0 then Num 0 else x)"

definition digitChar :: "nat \<Rightarrow> char" where
  "digitChar d = ''0123456789'' ! d"

text \<open>The decimal digits of a natural number, as \<open>toString\<close> writes an integer.\<close>

function decimal :: "nat \<Rightarrow> string" where
  "decimal n = (if n < 10 then [digitChar n] else decimal (n div 10) @ [digitChar (n mod 10)])"
  by pat_completeness auto
termination
  by (relation "measure (\<lambda>n. n)") auto

text \<open>
  \<open>toString\<close> of a number with an integer value: the sign and the decimal
  digits. (From \<open>1e21\<close> on JavaScript writes an exponent instead.)
\<close>

definition numberToString :: "int \<Rightarrow> string" where
  "numberToString i = (if i < 0 then CHR ''-'' # decimal (nat (- i)) else decimal (nat i))"

text \<open>
  The string of \<open>Math.floor(x)\<close>, as the template literal and \<open>toString\<close>
  give it: \<open>Math.floor\<close> returns what it gets when that is no finite number.
\<close>

fun floorString :: "number \<Rightarrow> string" where
  "floorString (Num x) = numberToString \<lfloor>x\<rfloor>"
| "floorString PosInfinity = ''Infinity''"
| "floorString NegInfinity = ''-Infinity''"
| "floorString NaN = ''NaN''"

text \<open>\<open>x.padStart(n, c)\<close> for a one-character pad string.\<close>

definition padStart :: "nat \<Rightarrow> char \<Rightarrow> string \<Rightarrow> string" where
  "padStart n c x = replicate (n - length x) c @ x"

text \<open>
  \<open>formatTime\<close>, lines 24 to 27 of VideoPlayer.tsx. The code computes in
  64-bit floating point, where the quotient \<open>t / 60\<close> is rounded before the
  floor is taken and the remainder is exact. For a time from 0 up to \<open>2^53\<close>
  seconds the rounded quotient has the floor of the exact one, and the minutes
  stay below \<open>1e21\<close>; that is the range in which the finite branch of this
  definition is the code.
\<close>

definition formatTime :: "number \<Rightarrow> string" where
  "formatTime t =
     floorString (jsDivide t (Num 60)) @ '':'' @
     padStart 2 (CHR ''0'') (floorString (jsRemainder t (Num 60)))"

text \<open>The state cells of the \<open>VideoPlayer\<close> component.\<close>

record player =
  duration :: number
  scrubberTime :: number
  isPlaying :: bool
  isScrubbing :: bool
  currentCaption :: "string option"

text \<open>
  The two properties of the video element that \<open>updateTime\<close> reads. The
  playback position is a finite number; the duration is \<open>NaN\<close> before the
  metadata are there and infinite for a medium without a known end.
\<close>

record video_element =
  currentTime :: real
  video_duration :: number

text \<open>\<open>timecodeList?.slice().reverse()\<close>, lines 64 to 67.\<close>

definition timecodeListReversed :: "annotation list option \<Rightarrow> annotation list option" where
  "timecodeListReversed tcs = map_option rev tcs"

text \<open>
  The callback given to \<open>find\<close> in line 93,
  \<open>(t) => timeToSecs(t.time) <= currentTime\<close>, at the playback time \<open>now\<close>.
  \<open>timeToSecs\<close> is imported from a module that is not part of the sources at
  hand, so the parser is the parameter \<open>tts\<close>; it yields \<open>None\<close> where the
  parser yields no number, and then the comparison is false.
\<close>

definition atOrBefore :: "(string \<Rightarrow> real option) \<Rightarrow> real \<Rightarrow> annotation \<Rightarrow> bool" where
  "atOrBefore tts now t = (case tts (time t) of None \<Rightarrow> False | Some secs \<Rightarrow> secs \<le> now)"

text \<open>\<open>updateTime\<close>, lines 85 to 97. \<open>video\<close> is \<open>videoRef.current\<close>.\<close>

definition updateTime ::
  "(string \<Rightarrow> real option) \<Rightarrow> player \<Rightarrow> annotation list option \<Rightarrow> video_element option \<Rightarrow> player" where
  "updateTime tts p tcs video =
     (let p1 =
        (case video of
           None \<Rightarrow> p
         | Some v \<Rightarrow>
             if \<not> isScrubbing p
             then p\<lparr>scrubberTime :=
                      orZero (jsDivide (Num (currentTime v)) (video_duration v))\<rparr>
             else p)
      in case timecodeListReversed tcs of
           None \<Rightarrow> p1
         | Some reversed \<Rightarrow>
             (case video of
                None \<Rightarrow> p1
              | Some v \<Rightarrow>
                  p1\<lparr>currentCaption :=
                       (case find (atOrBefore tts (currentTime v)) reversed of
                          None \<Rightarrow> None
                        | Some t \<Rightarrow> text_field t)\<rparr>))"

subsection \<open>The time codec\<close>

text \<open>\<open>x.split(c)\<close> for a one-character separator.\<close>

fun splitOn :: "char \<Rightarrow> string \<Rightarrow> string list" where
  "splitOn c [] = [[]]"
| "splitOn c (x # xs) =
     (if x = c then [] # splitOn c xs
      else (case splitOn c xs of
              [] \<Rightarrow> [[x]]
            | part # parts \<Rightarrow> (x # part) # parts))"

definition digitValue :: "char \<Rightarrow> nat option" where
  "digitValue c =
     (let n = (of_char c :: nat) in if 48 \<le> n \<and> n \<le> 57 then Some (n - 48) else None)"

fun digitsValue :: "nat \<Rightarrow> string \<Rightarrow> nat option" where
  "digitsValue acc [] = Some acc"
| "digitsValue acc (c # cs) =
     (case digitValue c of
        None \<Rightarrow> None
      | Some d \<Rightarrow> digitsValue (10 * acc + d) cs)"

definition parsePart :: "string \<Rightarrow> nat option" where
  "parsePart x = (if x = [] then None else digitsValue 0 x)"

text \<open>
  Modelled from the spec: \<open>timeToSecs\<close> of the module \<open>utils\<close>, which the
  sources at hand do not contain. The specification (section 4.1) has it split
  the string on the colon, accept the two-part form \<open>M:SS\<close> and the three-part
  form \<open>H:MM:SS\<close>, parse each part as an integer and add the parts weighted by
  1, 60 and 3600 from the right; a part that is no number makes the time
  malformed, which is \<open>None\<close> here.
\<close>

definition timeToSecs :: "string \<Rightarrow> real option" where
  "timeToSecs x =
     (case map parsePart (splitOn (CHR '':'') x) of
        [Some m, Some sec] \<Rightarrow> Some (real (m * 60 + sec))
      | [Some h, Some m, Some sec] \<Rightarrow> Some (real (h * 3600 + m * 60 + sec))
      | _ \<Rightarrow> None)"

section \<open>Sample values\<close>

text \<open>
  Concrete values on which the theorems below are instantiated. The escaped
  sample is the four characters a, backslash, quote, b.
\<close>

definition escapedSample :: string where
  "escapedSample = [CHR ''a'', CHR 0x5C, CHR 0x27, CHR ''b'']"

definition unescapedSample :: string where
  "unescapedSample = [CHR ''a'', CHR 0x27, CHR ''b'']"

definition escapedEntry :: annotation where
  "escapedEntry =
     \<lparr>time = ''0:05'', text_field = Some escapedSample, objects = None, value_field = None\<rparr>"

definition unescapedEntry :: annotation where
  "unescapedEntry =
     \<lparr>time = ''0:05'', text_field = Some unescapedSample, objects = None, value_field = None\<rparr>"

definition sampleFile :: uploaded_file_info where
  "sampleFile = \<lparr>uri = ''files/abc'', mimeType = ''video/mp4''\<rparr>"

definition priorList :: "annotation list" where
  "priorList =
     [\<lparr>time = ''0:01'', text_field = Some ''intro'', objects = None, value_field = None\<rparr>]"

definition sampleModes :: modes where
  "sampleModes =
     (\<lambda>mode. \<lparr>prompt_text = ''Describe the video.'',
               prompt_fn = (\<lambda>x. ''Answer this: '' @ x),
               subModes = (\<lambda>k. k)\<rparr>)"

text \<open>
  A state with a request in flight: a file has been uploaded, the mode
  \<open>Custom\<close> is selected, an earlier analysis left a list, and
  \<open>onModeSelect\<close> has issued one request that is not answered yet.
\<close>

definition inflightApp :: app where
  "inflightApp =
     \<lparr>vidUrl = Some ''blob:1'', file_info = Some sampleFile, timecodeList = Some priorList,
      requestedTimecode = None, selectedMode = ''Custom'', activeMode = Some ''Custom'',
      isLoading = True, isLoadingVideo = False, videoError = False,
      customPrompt = ''cats'', chartMode = ''Excitement'', chartPrompt = [], chartLabel = [],
      scrollRefCurrent = True, console = [],
      generateCalls = [\<lparr>gen_prompt = ''Answer this: cats'', gen_file = sampleFile\<rparr>],
      uploadCalls = [\<lparr>file_name = ''a.mp4'', file_type = ''video/mp4''\<rparr>],
      revokedUrls = [], scrolls = 0\<rparr>"

text \<open>A response whose only function call is \<open>n\<close> with the entries \<open>ts\<close>.\<close>

definition responseCalling :: "string \<Rightarrow> annotation list \<Rightarrow> response" where
  "responseCalling n ts =
     \<lparr>functionCalls = Some [\<lparr>name = n, args = \<lparr>timecodes = ts\<rparr>\<rparr>], resp_text = None\<rparr>"


text \<open>
  The state of the component before anything is dropped, three files, the
  handle that the upload of the first one yields, and the state in which the
  first video was dropped and then, its upload still pending, the second one.
\<close>

definition emptyApp :: app where
  "emptyApp =
     \<lparr>vidUrl = None, file_info = None, timecodeList = None,
      requestedTimecode = None, selectedMode = ''Table'', activeMode = None,
      isLoading = False, isLoadingVideo = False, videoError = False,
      customPrompt = [], chartMode = ''Excitement'', chartPrompt = [], chartLabel = [],
      scrollRefCurrent = True, console = [], generateCalls = [], uploadCalls = [],
      revokedUrls = [], scrolls = 0\<rparr>"

definition videoA :: dropped_file where
  "videoA = \<lparr>file_name = ''a.mp4'', file_type = ''video/mp4''\<rparr>"

definition videoB :: dropped_file where
  "videoB = \<lparr>file_name = ''b.webm'', file_type = ''video/webm''\<rparr>"

definition pictureC :: dropped_file where
  "pictureC = \<lparr>file_name = ''c.png'', file_type = ''image/png''\<rparr>"

definition infoA :: uploaded_file_info where
  "infoA = \<lparr>uri = ''files/a'', mimeType = ''video/mp4''\<rparr>"

definition secondDropPending :: app where
  "secondDropPending =
     uploadVideo_start (uploadVideo_start emptyApp (Some videoA) ''blob:A'') (Some videoB) ''blob:B''"

text \<open>
  A status endpoint that answers the \<open>i\<close>-th request with the \<open>i\<close>-th state
  of \<open>xs\<close>, and with \<open>d\<close> once \<open>xs\<close> is used up.
\<close>

definition statusStream :: "file_state list \<Rightarrow> file_state \<Rightarrow> nat \<Rightarrow> string + file_resource" where
  "statusStream xs d i =
     Inr \<lparr>res_state = (if i < length xs then xs ! i else d),
          res_uri = ''files/a'', res_mimeType = Some ''video/mp4''\<rparr>"

text \<open>
  The states in the first \<open>n\<close> answers of a status endpoint (\<open>None\<close> for a
  rejected request), and the endpoint that answers twelve times with
  \<open>PROCESSING\<close> and then with \<open>ACTIVE\<close>.
\<close>

definition answeredStates :: "(nat \<Rightarrow> string + file_resource) \<Rightarrow> nat \<Rightarrow> file_state option list" where
  "answeredStates get n =
     map (\<lambda>i. case get i of Inl e \<Rightarrow> None | Inr r \<Rightarrow> Some (res_state r)) [0..<n]"

definition twelveThenActive :: "nat \<Rightarrow> string + file_resource" where
  "twelveThenActive =
     statusStream (replicate 12 PROCESSING) ACTIVE"

text \<open>
  Two annotations, at 0:05 and at 0:10 in this order, a player before the
  first time update, and the video element at a playback time.
\<close>

definition twoCaptions :: "annotation list" where
  "twoCaptions =
     [\<lparr>time = ''0:05'', text_field = Some ''first'', objects = None, value_field = None\<rparr>,
      \<lparr>time = ''0:10'', text_field = Some ''second'', objects = None, value_field = None\<rparr>]"

definition freshPlayer :: player where
  "freshPlayer =
     \<lparr>duration = Num 20, scrubberTime = Num 0, isPlaying = True, isScrubbing = False,
      currentCaption = None\<rparr>"

definition videoAt :: "real \<Rightarrow> video_element" where
  "videoAt now = \<lparr>currentTime = now, video_duration = Num 20\<rparr>"

section \<open>Facts about the router and the request handler\<close>

lemma map_of_fnMap:
  "map_of fnMap n =
     (if n = ''set_timecodes'' then Some setTimecodes
      else if n = ''set_timecodes_with_objects'' then Some setTimecodes
      else if n = ''set_timecodes_with_numeric_values'' then Some setTimecodesNumeric
      else None)"
  by (simp add: fnMap_def)

lemma finallyBlock_cells:
  "timecodeList (finallyBlock s) = timecodeList s"
  "videoError (finallyBlock s) = videoError s"
  "isLoading (finallyBlock s) = False"
  "console (finallyBlock s) = console s"
  "generateCalls (finallyBlock s) = generateCalls s"
  "file_info (finallyBlock s) = file_info s"
  by (simp_all add: finallyBlock_def Let_def)

lemma resume_call:
  "firstCall resp = Some call \<Longrightarrow>
   onModeSelect_resume s (Inr resp) = finallyBlock (dispatch call s)"
  by (simp add: onModeSelect_resume_def)

lemma firstCall_responseCalling:
  "firstCall (responseCalling n ts) = Some \<lparr>name = n, args = \<lparr>timecodes = ts\<rparr>\<rparr>"
  by (simp add: firstCall_def responseCalling_def)

lemma dispatch_setTimecodes:
  "name call = ''set_timecodes'' \<or> name call = ''set_timecodes_with_objects'' \<Longrightarrow>
   dispatch call s = setTimecodes (args call) s"
  by (auto simp: dispatch_def fnMapGet_def map_of_fnMap)

lemma dispatch_numeric:
  "name call = ''set_timecodes_with_numeric_values'' \<Longrightarrow>
   dispatch call s = setTimecodesNumeric (args call) s"
  by (simp add: dispatch_def fnMapGet_def map_of_fnMap)

lemma normaliseText_fields:
  "time (normaliseText t) = time t"
  "objects (normaliseText t) = objects t"
  "value_field (normaliseText t) = value_field t"
  "text_field (normaliseText t) =
     Some (case text_field t of None \<Rightarrow> [] | Some x \<Rightarrow> replaceEscapedQuote x)"
  by (simp_all add: normaliseText_def split: option.split)

section \<open>Claim C1: unescaping of the text field\<close>

text \<open>
  What the replace does to a text: a stretch without backslash is copied, a
  backslash followed by a quote becomes the quote, and a text without any
  backslash comes out as it went in.
\<close>

lemma replaceEscapedQuote_plain:
  "CHR 0x5C \<notin> set x \<Longrightarrow> replaceEscapedQuote (x @ y) = x @ replaceEscapedQuote y"
proof (induction x)
  case Nil
  then show ?case by simp
next
  case (Cons c x)
  then have c: "c \<noteq> CHR 0x5C" and IH: "replaceEscapedQuote (x @ y) = x @ replaceEscapedQuote y"
    by auto
  show ?case
  proof (cases "x @ y")
    case Nil
    then show ?thesis by simp
  next
    case (Cons d rest)
    with c have "replaceEscapedQuote (c # x @ y) = c # replaceEscapedQuote (x @ y)"
      by simp
    with IH show ?thesis by simp
  qed
qed

lemma replaceEscapedQuote_escaped:
  "replaceEscapedQuote (CHR 0x5C # CHR 0x27 # rest) = CHR 0x27 # replaceEscapedQuote rest"
  by simp

lemma replaceEscapedQuote_unchanged:
  "CHR 0x5C \<notin> set x \<Longrightarrow> replaceEscapedQuote x = x"
  using replaceEscapedQuote_plain [of x "[]"] by simp

text \<open>
  C1, as stated, has every stored \<open>text\<close> unescaped whichever capability
  handled the call. It fails for \<open>set_timecodes_with_numeric_values\<close>: a
  response that calls it with the text a, backslash, quote, b stores that text
  as it came, backslash included.
\<close>

theorem C1_numeric_keeps_escape:
  "timecodeList (onModeSelect_resume inflightApp
      (Inr (responseCalling ''set_timecodes_with_numeric_values'' [escapedEntry])))
     = Some [escapedEntry] \<and>
   text_field escapedEntry = Some [CHR ''a'', CHR 0x5C, CHR 0x27, CHR ''b'']"
  by (simp add: resume_call [OF firstCall_responseCalling] dispatch_numeric
      finallyBlock_cells setTimecodesNumeric_def escapedEntry_def escapedSample_def)

text \<open>
  C1, amended: when the first function call of a response names
  \<open>set_timecodes\<close> or \<open>set_timecodes_with_objects\<close>, the stored list has one
  entry per entry of the payload, in the same order, with the same \<open>time\<close>,
  \<open>objects\<close> and \<open>value\<close>, and with the \<open>text\<close> in which every backslash-quote
  is replaced by a quote (the empty string when the text is missing). When it
  names \<open>set_timecodes_with_numeric_values\<close> the payload is stored as it is.
\<close>

theorem C1_text_unescaped:
  "firstCall resp = Some call \<Longrightarrow>
   (name call = ''set_timecodes'' \<or> name call = ''set_timecodes_with_objects'' \<longrightarrow>
      (\<exists>stored. timecodeList (onModeSelect_resume s (Inr resp)) = Some stored \<and>
         length stored = length (timecodes (args call)) \<and>
         (\<forall>i < length stored.
            text_field (stored ! i) =
              Some (case text_field (timecodes (args call) ! i) of
                      None \<Rightarrow> [] | Some x \<Rightarrow> replaceEscapedQuote x) \<and>
            time (stored ! i) = time (timecodes (args call) ! i) \<and>
            objects (stored ! i) = objects (timecodes (args call) ! i) \<and>
            value_field (stored ! i) = value_field (timecodes (args call) ! i)))) \<and>
   (name call = ''set_timecodes_with_numeric_values'' \<longrightarrow>
      timecodeList (onModeSelect_resume s (Inr resp)) = Some (timecodes (args call)))"
  by (simp add: resume_call finallyBlock_cells dispatch_setTimecodes dispatch_numeric
      setTimecodes_def setTimecodesNumeric_def normaliseText_fields)

text \<open>
  The example of the specification: the response that calls \<open>set_timecodes\<close>
  with the entry at 0:05 whose text is a, backslash, quote, b yields the list
  with the one entry at 0:05 whose text is a, quote, b.
\<close>

theorem C1_text_unescaped_example:
  "firstCall (responseCalling ''set_timecodes'' [escapedEntry])
     = Some \<lparr>name = ''set_timecodes'', args = \<lparr>timecodes = [escapedEntry]\<rparr>\<rparr> \<and>
   timecodeList (onModeSelect_resume inflightApp
      (Inr (responseCalling ''set_timecodes'' [escapedEntry])))
     = Some [unescapedEntry]"
proof -
  have call: "firstCall (responseCalling ''set_timecodes'' [escapedEntry])
     = Some \<lparr>name = ''set_timecodes'', args = \<lparr>timecodes = [escapedEntry]\<rparr>\<rparr>"
    by (simp add: firstCall_def responseCalling_def)
  from C1_text_unescaped [OF call, of inflightApp]
  obtain stored where
    st: "timecodeList (onModeSelect_resume inflightApp
           (Inr (responseCalling ''set_timecodes'' [escapedEntry]))) = Some stored"
    and len: "length stored = 1"
    and fields: "\<forall>i < length stored.
            text_field (stored ! i) =
              Some (case text_field ([escapedEntry] ! i) of
                      None \<Rightarrow> [] | Some x \<Rightarrow> replaceEscapedQuote x) \<and>
            time (stored ! i) = time ([escapedEntry] ! i) \<and>
            objects (stored ! i) = objects ([escapedEntry] ! i) \<and>
            value_field (stored ! i) = value_field ([escapedEntry] ! i)"
    by auto
  from len obtain e where e: "stored = [e]"
    by (cases stored) auto
  from fields e have "e = unescapedEntry"
    by (simp add: escapedEntry_def unescapedEntry_def escapedSample_def unescapedSample_def)
  with st e call show ?thesis by simp
qed

section \<open>Claim C10: defaulting of the text field\<close>



section \<open>Claim C8: a capability that is not in the map\<close>

text \<open>
  A name that is no key of \<open>fnMap\<close> reaches no handler. Whatever the property
  access finds for it, the call writes at most a line to the console: the
  annotation list, the error flag, the requests issued and the file handle stay
  as they are, and the \<open>finally\<close> block clears the loading flag.
\<close>

lemma objectPrototype_no_handler: "map_of objectPrototype n \<noteq> Some (Handler fn)"
proof
  assume "map_of objectPrototype n = Some (Handler fn)"
  then have "(n, Handler fn) \<in> set objectPrototype"
    by (rule map_of_SomeD)
  then show False
    by (simp add: objectPrototype_def)
qed

lemma dispatch_unregistered:
  "name call \<notin> set (map fst fnMap) \<Longrightarrow>
   timecodeList (dispatch call s) = timecodeList s \<and>
   videoError (dispatch call s) = videoError s \<and>
   generateCalls (dispatch call s) = generateCalls s \<and>
   file_info (dispatch call s) = file_info s"
proof -
  assume "name call \<notin> set (map fst fnMap)"
  then have own: "map_of fnMap (name call) = None"
    by (simp add: map_of_eq_None_iff)
  show ?thesis
  proof (cases "map_of objectPrototype (name call)")
    case None
    with own show ?thesis by (simp add: dispatch_def fnMapGet_def)
  next
    case (Some p)
    with objectPrototype_no_handler [of "name call"] have "p = Returns \<or> p = Throws"
      by (cases p) auto
    with own Some show ?thesis
      by (auto simp: dispatch_def fnMapGet_def)
  qed
qed

lemma resume_unregistered:
  "firstCall resp = Some call \<Longrightarrow> name call \<notin> set (map fst fnMap) \<Longrightarrow>
   timecodeList (onModeSelect_resume s (Inr resp)) = timecodeList s \<and>
   videoError (onModeSelect_resume s (Inr resp)) = videoError s \<and>
   isLoading (onModeSelect_resume s (Inr resp)) = False \<and>
   generateCalls (onModeSelect_resume s (Inr resp)) = generateCalls s \<and>
   file_info (onModeSelect_resume s (Inr resp)) = file_info s"
  using dispatch_unregistered [of call s]
  by (simp add: resume_call finallyBlock_cells)

text \<open>
  The line \<open>Function ... not found in function map.\<close> is written for the
  names that are found neither in the map nor among the inherited properties.
\<close>

lemma resume_unknown_logged:
  "firstCall resp = Some call \<Longrightarrow> name call \<notin> set (map fst fnMap) \<Longrightarrow>
   name call \<notin> set (map fst objectPrototype) \<Longrightarrow>
   console (onModeSelect_resume s (Inr resp)) =
     console s @ [ConsoleError (''Function '' @ name call @ '' not found in function map.'')]"
proof -
  assume call: "firstCall resp = Some call"
    and own: "name call \<notin> set (map fst fnMap)"
    and inherited: "name call \<notin> set (map fst objectPrototype)"
  from own have "map_of fnMap (name call) = None"
    by (simp add: map_of_eq_None_iff)
  moreover from inherited have "map_of objectPrototype (name call) = None"
    by (simp add: map_of_eq_None_iff)
  ultimately have "fnMapGet (name call) = None"
    by (simp add: fnMapGet_def)
  then have "console (dispatch call s) =
      console s @ [ConsoleError (''Function '' @ name call @ '' not found in function map.'')]"
    by (simp add: dispatch_def)
  with call show ?thesis
    by (simp add: resume_call finallyBlock_cells)
qed

lemma inherited_lookups:
  "fnMapGet ''toString'' = Some Returns"
  "fnMapGet ''__proto__'' = Some Throws"
  "fnMapGet ''set_colors'' = None"
  by (simp_all add: fnMapGet_def fnMap_def objectPrototype_def)

text \<open>
  C8 on three responses received in the state \<open>inflightApp\<close>, each naming a
  capability that is no key of the map. For \<open>set_colors\<close> the handler writes
  the line that reports the unknown capability. For \<open>toString\<close> the property
  access finds the inherited function, the call is made and nothing is
  written; for \<open>__proto__\<close> the call throws and the line written is that of
  the \<open>catch\<close> block. In all three the annotation list is the earlier one
  and the error flag is clear.
\<close>

theorem C8_inherited_name_not_reported:
  "''set_colors'' \<notin> set (map fst fnMap) \<and>
   ''toString'' \<notin> set (map fst fnMap) \<and>
   ''__proto__'' \<notin> set (map fst fnMap) \<and>
   console inflightApp = [] \<and>
   console (onModeSelect_resume inflightApp (Inr (responseCalling ''set_colors'' [escapedEntry])))
     = [ConsoleError ''Function set_colors not found in function map.''] \<and>
   console (onModeSelect_resume inflightApp (Inr (responseCalling ''toString'' [escapedEntry])))
     = [] \<and>
   console (onModeSelect_resume inflightApp (Inr (responseCalling ''__proto__'' [escapedEntry])))
     = [ConsoleError ''Error generating content: TypeError''] \<and>
   timecodeList (onModeSelect_resume inflightApp (Inr (responseCalling ''toString'' [escapedEntry])))
     = Some priorList \<and>
   timecodeList (onModeSelect_resume inflightApp (Inr (responseCalling ''__proto__'' [escapedEntry])))
     = Some priorList \<and>
   videoError (onModeSelect_resume inflightApp (Inr (responseCalling ''toString'' [escapedEntry])))
     = False \<and>
   videoError (onModeSelect_resume inflightApp (Inr (responseCalling ''__proto__'' [escapedEntry])))
     = False"
proof -
  have absent: "''set_colors'' \<notin> set (map fst fnMap)" "''toString'' \<notin> set (map fst fnMap)"
    "''__proto__'' \<notin> set (map fst fnMap)"
    by (simp_all add: fnMap_def)
  have start: "console inflightApp = []" "timecodeList inflightApp = Some priorList"
    "videoError inflightApp = False"
    by (simp_all add: inflightApp_def)
  have lines: "console (dispatch \<lparr>name = ''set_colors'', args = a\<rparr> inflightApp)
      = [ConsoleError ''Function set_colors not found in function map.'']"
    "console (dispatch \<lparr>name = ''toString'', args = a\<rparr> inflightApp) = []"
    "console (dispatch \<lparr>name = ''__proto__'', args = a\<rparr> inflightApp)
      = [ConsoleError ''Error generating content: TypeError'']" for a
    by (simp_all add: dispatch_def inherited_lookups start)
  have cells: "timecodeList (dispatch \<lparr>name = n, args = a\<rparr> inflightApp) = Some priorList \<and>
      videoError (dispatch \<lparr>name = n, args = a\<rparr> inflightApp) = False"
    if "n \<notin> set (map fst fnMap)" for n a
    using that dispatch_unregistered [of "\<lparr>name = n, args = a\<rparr>" inflightApp]
    by (simp add: start)
  from absent start lines cells [OF absent(2)] cells [OF absent(3)] show ?thesis
    by (simp add: resume_call [OF firstCall_responseCalling] finallyBlock_cells)
qed

section \<open>Claim C2: a second request while one is in flight\<close>

text \<open>
  \<open>onModeSelect\<close> tests \<open>file\<close> only: whenever a file is there it issues a
  request, whatever \<open>isLoading\<close> is.
\<close>

lemma onModeSelect_start_issues:
  "file_info s = Some f \<Longrightarrow>
   generateCalls (onModeSelect_start m s mode) =
     generateCalls s @ [\<lparr>gen_prompt = currentPrompt m s mode, gen_file = f\<rparr>] \<and>
   isLoading (onModeSelect_start m s mode) \<and>
   timecodeList (onModeSelect_start m s mode) = timecodeList s"
  by (simp add: onModeSelect_start_def)

lemma inflight_shown: "customPromptShown inflightApp"
  by (simp add: customPromptShown_def hasSubMode_def isCustomMode_def inflightApp_def)

lemma inflight_prompt: "currentPrompt sampleModes inflightApp ''Custom'' = ''Answer this: cats''"
  by (simp add: currentPrompt_def isCustomMode_def inflightApp_def sampleModes_def)

lemma inflight_keydown:
  "customPromptKeyDown sampleModes inflightApp ''Enter'' False =
     onModeSelect_start sampleModes inflightApp ''Custom''"
  using inflight_shown by (simp add: customPromptKeyDown_def) (simp add: inflightApp_def)

text \<open>
  C2 on the state \<open>inflightApp\<close>, where a request is in flight. The Generate
  button is disabled there and a click on it changes nothing. The Enter key in
  the custom-prompt text area is not gated: it calls \<open>onModeSelect\<close>, which
  issues a second request, and the answer to that request replaces the
  annotation list.
\<close>

theorem C2_second_request_issued:
  "isLoading inflightApp \<and>
   subModeGenerateDisabled inflightApp \<and>
   subModeGenerateClick sampleModes inflightApp = inflightApp \<and>
   generateCalls (customPromptKeyDown sampleModes inflightApp ''Enter'' False) =
     generateCalls inflightApp @ [\<lparr>gen_prompt = ''Answer this: cats'', gen_file = sampleFile\<rparr>] \<and>
   length (generateCalls (onModeSelect_start sampleModes inflightApp ''Custom'')) = 2 \<and>
   timecodeList (onModeSelect_resume (customPromptKeyDown sampleModes inflightApp ''Enter'' False)
       (Inr (responseCalling ''set_timecodes'' [escapedEntry]))) = Some [unescapedEntry] \<and>
   timecodeList inflightApp = Some priorList"
proof -
  have f: "file_info inflightApp = Some sampleFile" and l: "isLoading inflightApp"
    and g: "length (generateCalls inflightApp) = 1" and t: "timecodeList inflightApp = Some priorList"
    by (simp_all add: inflightApp_def)
  have d: "subModeGenerateDisabled inflightApp"
    using l by (simp add: subModeGenerateDisabled_def)
  have c: "subModeGenerateClick sampleModes inflightApp = inflightApp"
    using d by (simp add: subModeGenerateClick_def)
  have r: "timecodeList (onModeSelect_resume (onModeSelect_start sampleModes inflightApp ''Custom'')
       (Inr (responseCalling ''set_timecodes'' [escapedEntry]))) = Some [unescapedEntry]"
    by (simp add: resume_call [OF firstCall_responseCalling] finallyBlock_cells
        dispatch_setTimecodes setTimecodes_def normaliseText_def escapedEntry_def
        unescapedEntry_def escapedSample_def unescapedSample_def)
  show ?thesis
    using l d c r t g onModeSelect_start_issues [OF f, of sampleModes "''Custom''"]
    by (simp add: inflight_keydown inflight_prompt)
qed

section \<open>Claim C3: a failed generation request\<close>

text \<open>
  What the handler does when the request rejects, in any state: it adds one
  line to the console and clears the loading flag.
\<close>

lemma resume_error_cells:
  "videoError (onModeSelect_resume s (Inl e)) = videoError s"
  "timecodeList (onModeSelect_resume s (Inl e)) = timecodeList s"
  "isLoading (onModeSelect_resume s (Inl e)) = False"
  "console (onModeSelect_resume s (Inl e)) =
     console s @ [ConsoleError (''Error generating content: '' @ e)]"
  by (simp_all add: onModeSelect_resume_def finallyBlock_cells)

text \<open>
  C3 on the state \<open>inflightApp\<close>, when the request rejects: the \<open>catch\<close>
  block writes to the console and nothing else, so the error flag is still
  clear afterwards. The annotation list is the earlier one and the \<open>finally\<close>
  block has cleared the loading flag.
\<close>

theorem C3_no_error_flag:
  "videoError inflightApp = False \<and>
   videoError (onModeSelect_resume inflightApp (Inl ''503'')) = False \<and>
   timecodeList (onModeSelect_resume inflightApp (Inl ''503'')) = Some priorList \<and>
   isLoading (onModeSelect_resume inflightApp (Inl ''503'')) = False \<and>
   console (onModeSelect_resume inflightApp (Inl ''503'')) =
     [ConsoleError ''Error generating content: 503'']"
  by (simp add: resume_error_cells) (simp add: inflightApp_def)

section \<open>Claim C7: a dropped file that is no video\<close>

text \<open>
  C7: when the MIME type of the dropped file does not start with \<open>video/\<close>,
  the drop handler makes no call of \<open>uploadFile\<close>, sets the error flag, clears
  the loading flag and leaves neither a file handle nor a preview URL.
\<close>

theorem C7_non_video_drop:
  "\<not> startsWith (file_type droppedFile) ''video/'' \<Longrightarrow>
   uploadCalls (uploadVideo_start s (Some droppedFile) objectUrl) = uploadCalls s \<and>
   videoError (uploadVideo_start s (Some droppedFile) objectUrl) \<and>
   \<not> isLoadingVideo (uploadVideo_start s (Some droppedFile) objectUrl) \<and>
   file_info (uploadVideo_start s (Some droppedFile) objectUrl) = None \<and>
   vidUrl (uploadVideo_start s (Some droppedFile) objectUrl) = None"
  by (simp add: uploadVideo_start_def)

text \<open>A dropped PNG starts no upload; a dropped MP4 starts one.\<close>

theorem C7_non_video_drop_example:
  "\<not> startsWith (file_type pictureC) ''video/'' \<and>
   uploadCalls (uploadVideo_start emptyApp (Some pictureC) ''blob:C'') = [] \<and>
   videoError (uploadVideo_start emptyApp (Some pictureC) ''blob:C'') \<and>
   uploadCalls (uploadVideo_start emptyApp (Some videoA) ''blob:A'') = [videoA]"
proof -
  have png: "\<not> startsWith (file_type pictureC) ''video/''"
    by (simp add: startsWith_def pictureC_def)
  have mp4: "uploadCalls (uploadVideo_start emptyApp (Some videoA) ''blob:A'') = [videoA]"
    by (simp add: uploadVideo_start_def startsWith_def videoA_def emptyApp_def)
  from C7_non_video_drop [OF png, of emptyApp "''blob:C''"] png mp4
  show ?thesis by (simp add: emptyApp_def)
qed

section \<open>Claim C4: a new drop while an upload is pending\<close>

lemma secondDropPending_cells:
  "file_info secondDropPending = None"
  "isLoadingVideo secondDropPending"
  "vidUrl secondDropPending = Some ''blob:B''"
  "uploadCalls secondDropPending = [videoA, videoB]"
  by (simp_all add: secondDropPending_def uploadVideo_start_def startsWith_def
      videoA_def videoB_def emptyApp_def)

text \<open>
  C4, as stated, fails. In \<open>secondDropPending\<close> the second video is being
  uploaded: there is no file handle, the loading flag is set and the preview is
  the second video's. When the upload of the first video then succeeds, its
  handle becomes the file handle and the loading flag is cleared, next to the
  preview of the second video. When it fails instead, the preview of the second
  video is removed and the error flag is set.
\<close>

theorem C4_stale_upload_overwrites:
  "file_info secondDropPending = None \<and>
   isLoadingVideo secondDropPending \<and>
   vidUrl secondDropPending = Some ''blob:B'' \<and>
   file_info (uploadVideo_resume secondDropPending ''blob:A'' (Inr infoA)) = Some infoA \<and>
   \<not> isLoadingVideo (uploadVideo_resume secondDropPending ''blob:A'' (Inr infoA)) \<and>
   vidUrl (uploadVideo_resume secondDropPending ''blob:A'' (Inr infoA)) = Some ''blob:B'' \<and>
   vidUrl (uploadVideo_resume secondDropPending ''blob:A'' (Inl ProcessingFailedError)) = None \<and>
   videoError (uploadVideo_resume secondDropPending ''blob:A'' (Inl ProcessingFailedError))"
  by (simp add: secondDropPending_cells uploadVideo_resume_def)

text \<open>
  C4, amended: the code after the \<open>await\<close> in \<open>uploadVideo\<close> has no test of
  the session, so in every state, in particular after a newer drop, the
  settling of an upload leaves the annotation list, the active mode and the
  requested timecode as they are and writes the media cells: it clears the
  loading flag and, on success, stores the handle it got (preview and error
  flag unchanged), while on failure it removes handle and preview and sets the
  error flag.
\<close>

theorem C4_stale_upload_writes:
  "timecodeList (uploadVideo_resume s objectUrl result) = timecodeList s \<and>
   activeMode (uploadVideo_resume s objectUrl result) = activeMode s \<and>
   requestedTimecode (uploadVideo_resume s objectUrl result) = requestedTimecode s \<and>
   \<not> isLoadingVideo (uploadVideo_resume s objectUrl result) \<and>
   (case result of
      Inr uploadedFileInfo \<Rightarrow>
        file_info (uploadVideo_resume s objectUrl result) = Some uploadedFileInfo \<and>
        vidUrl (uploadVideo_resume s objectUrl result) = vidUrl s \<and>
        videoError (uploadVideo_resume s objectUrl result) = videoError s
    | Inl uploadError \<Rightarrow>
        file_info (uploadVideo_resume s objectUrl result) = None \<and>
        vidUrl (uploadVideo_resume s objectUrl result) = None \<and>
        videoError (uploadVideo_resume s objectUrl result))"
  by (simp add: uploadVideo_resume_def split: sum.split)

text \<open>The settling of the first upload after the second drop.\<close>

theorem C4_stale_upload_writes_example:
  "timecodeList (uploadVideo_resume secondDropPending ''blob:A'' (Inr infoA)) = None \<and>
   activeMode (uploadVideo_resume secondDropPending ''blob:A'' (Inr infoA)) = None \<and>
   file_info (uploadVideo_resume secondDropPending ''blob:A'' (Inr infoA)) = Some infoA"
  using C4_stale_upload_writes [of secondDropPending "''blob:A''" "Inr infoA"]
  by (simp add: secondDropPending_def uploadVideo_start_def startsWith_def
      videoA_def videoB_def emptyApp_def)

section \<open>Claim C5: polling for the processed file\<close>

text \<open>
  The loop invariant is that \<open>getFile\<close> is the answer to request number
  \<open>retries\<close>. The loop stops at the first answer that is not \<open>PROCESSING\<close>,
  when that comes among the requests 0 to 12, and after request 12 otherwise.
\<close>

lemma pollLoop_settles:
  "get n = Inr cur \<Longrightarrow> n \<le> k \<Longrightarrow> k \<le> maxRetries \<Longrightarrow>
   (\<forall>i<k. \<exists>r. get i = Inr r \<and> res_state r = PROCESSING) \<Longrightarrow>
   get k = Inr g \<Longrightarrow> res_state g \<noteq> PROCESSING \<Longrightarrow>
   pollLoop get cur n = (Inr g, k)"
proof (induction get cur n rule: pollLoop.induct)
  case (1 get getFile retries)
  show ?case
  proof (cases "retries = k")
    case True
    with "1.prems" have "getFile = g" by simp
    with "1.prems" True show ?thesis by simp
  next
    case False
    with "1.prems" have lt: "retries < k" by simp
    with "1.prems" have proc: "res_state getFile = PROCESSING" by auto
    from lt "1.prems" have more: "retries < maxRetries" by simp
    obtain r where r: "get (Suc retries) = Inr r"
    proof (cases "Suc retries = k")
      case True
      with "1.prems" that show ?thesis by simp
    next
      case False
      with lt have "Suc retries < k" by simp
      with "1.prems" that show ?thesis by blast
    qed
    from lt have "Suc retries \<le> k" by simp
    with "1.IH" [OF _ r r] proc more "1.prems"
    have "pollLoop get r (Suc retries) = (Inr g, k)" by simp
    with proc more r show ?thesis by simp
  qed
qed

lemma pollLoop_exhausts:
  "get n = Inr cur \<Longrightarrow> n \<le> maxRetries \<Longrightarrow>
   (\<forall>i\<le>maxRetries. \<exists>r. get i = Inr r \<and> res_state r = PROCESSING) \<Longrightarrow>
   pollLoop get cur n = (get maxRetries, maxRetries)"
proof (induction get cur n rule: pollLoop.induct)
  case (1 get getFile retries)
  show ?case
  proof (cases "retries = maxRetries")
    case True
    with "1.prems" show ?thesis by simp
  next
    case False
    with "1.prems" have more: "retries < maxRetries" by simp
    from "1.prems" obtain r' where "get retries = Inr r'" "res_state r' = PROCESSING"
      by blast
    with "1.prems" have proc: "res_state getFile = PROCESSING" by simp
    from more have "Suc retries \<le> maxRetries" by simp
    with "1.prems" obtain r where r: "get (Suc retries) = Inr r"
      by blast
    from more have "Suc retries \<le> maxRetries" by simp
    with "1.IH" [OF _ r r] proc more "1.prems"
    have "pollLoop get r (Suc retries) = (get maxRetries, maxRetries)" by simp
    with proc more r show ?thesis by simp
  qed
qed

lemma pollLoop_bound:
  "retries \<le> maxRetries \<Longrightarrow> snd (pollLoop get getFile retries) \<le> maxRetries"
proof (induction get getFile retries rule: pollLoop.induct)
  case (1 get getFile retries)
  show ?case
  proof (cases "res_state getFile = PROCESSING \<and> retries < maxRetries")
    case True
    then show ?thesis
      using "1.IH" by (cases "get (Suc retries)") auto
  next
    case False
    with "1.prems" show ?thesis by auto
  qed
qed

lemma uploadFile_counts:
  "statusRequests (uploadFile f uploaded get) \<le> Suc maxRetries \<and>
   waitedMs (uploadFile f uploaded get) = 5000 * (statusRequests (uploadFile f uploaded get) - 1)"
proof (cases uploaded)
  case (Inl e)
  then show ?thesis by (simp add: uploadFile_def)
next
  case (Inr resource)
  show ?thesis
  proof (cases "get 0")
    case (Inl e)
    with Inr show ?thesis by (simp add: uploadFile_def)
  next
    case r0: (Inr r0)
    obtain res retries where p: "pollLoop get r0 0 = (res, retries)"
      by (cases "pollLoop get r0 0")
    with pollLoop_bound [of 0 get r0] have "retries \<le> maxRetries" by simp
    with Inr r0 p show ?thesis
      by (cases res) (simp_all add: uploadFile_def)
  qed
qed


lemma twelveThenActive_processing:
  "i < 12 \<Longrightarrow> \<exists>r. twelveThenActive i = Inr r \<and> res_state r = PROCESSING"
  by (simp add: twelveThenActive_def statusStream_def)

text \<open>
  C5, as stated, has the upload fail with a timeout once twelve polls have
  answered \<open>PROCESSING\<close>, a poll being a status request as in its first
  example. It fails on the endpoint \<open>twelveThenActive\<close>: the first twelve
  answers are \<open>PROCESSING\<close>, and \<open>uploadFile\<close> makes a thirteenth request and
  returns the handle.
\<close>

theorem C5_twelve_processing_then_active:
  "answeredStates twelveThenActive 12 =
     [Some PROCESSING, Some PROCESSING, Some PROCESSING, Some PROCESSING,
      Some PROCESSING, Some PROCESSING, Some PROCESSING, Some PROCESSING,
      Some PROCESSING, Some PROCESSING, Some PROCESSING, Some PROCESSING] \<and>
   outcome (uploadFile videoA (Inr ''files/a'') twelveThenActive) = Inr infoA \<and>
   statusRequests (uploadFile videoA (Inr ''files/a'') twelveThenActive) = 13"
proof -
  have first: "twelveThenActive 0 =
      Inr \<lparr>res_state = PROCESSING, res_uri = ''files/a'', res_mimeType = Some ''video/mp4''\<rparr>"
    by (simp add: twelveThenActive_def statusStream_def)
  have last: "twelveThenActive 12 =
      Inr \<lparr>res_state = ACTIVE, res_uri = ''files/a'', res_mimeType = Some ''video/mp4''\<rparr>"
    by (simp add: twelveThenActive_def statusStream_def)
  have loop: "pollLoop twelveThenActive
      \<lparr>res_state = PROCESSING, res_uri = ''files/a'', res_mimeType = Some ''video/mp4''\<rparr> 0 =
      (Inr \<lparr>res_state = ACTIVE, res_uri = ''files/a'', res_mimeType = Some ''video/mp4''\<rparr>, 12)"
    by (rule pollLoop_settles [OF first _ _ _ last])
       (simp_all add: maxRetries_def twelveThenActive_processing)
  have states: "answeredStates twelveThenActive 12 =
     [Some PROCESSING, Some PROCESSING, Some PROCESSING, Some PROCESSING,
      Some PROCESSING, Some PROCESSING, Some PROCESSING, Some PROCESSING,
      Some PROCESSING, Some PROCESSING, Some PROCESSING, Some PROCESSING]"
    by (simp add: answeredStates_def twelveThenActive_def statusStream_def upt_rec)
  from first loop states show ?thesis
    by (simp add: uploadFile_def finalState_def infoA_def)
qed

text \<open>
  C5, amended: \<open>uploadFile\<close> makes one status request and repeats it, after a
  wait of 5000 ms each time, while the state is \<open>PROCESSING\<close> and fewer than
  twelve repetitions were made; so it makes at most 13 requests. When the first
  answer that is not \<open>PROCESSING\<close> is answer number \<open>k\<close>, with \<open>k\<close> at
  most 12, it makes \<open>k + 1\<close> requests and ends on that answer: with the handle
  when the state is \<open>ACTIVE\<close>, with the error \<open>File processing failed\<close> when
  it is \<open>FAILED\<close>. When the answers 0 to 12 are all \<open>PROCESSING\<close> it makes 13
  requests, has waited 60000 ms and ends with the error
  \<open>File processing did not complete successfully\<close> on the state
  \<open>PROCESSING\<close>.
\<close>

theorem C5_polling:
  "statusRequests (uploadFile f (Inr resource) get) \<le> 13 \<and>
   waitedMs (uploadFile f (Inr resource) get) =
     5000 * (statusRequests (uploadFile f (Inr resource) get) - 1) \<and>
   (\<forall>k g. k \<le> 12 \<and> (\<forall>i<k. \<exists>r. get i = Inr r \<and> res_state r = PROCESSING) \<and>
       get k = Inr g \<and> res_state g \<noteq> PROCESSING \<longrightarrow>
       statusRequests (uploadFile f (Inr resource) get) = k + 1 \<and>
       outcome (uploadFile f (Inr resource) get) = finalState f g \<and>
       (res_state g = ACTIVE \<longrightarrow> (\<exists>info. finalState f g = Inr info \<and> uri info = res_uri g)) \<and>
       (res_state g = FAILED \<longrightarrow> finalState f g = Inl ProcessingFailedError)) \<and>
   ((\<forall>i\<le>12. \<exists>r. get i = Inr r \<and> res_state r = PROCESSING) \<longrightarrow>
       statusRequests (uploadFile f (Inr resource) get) = 13 \<and>
       waitedMs (uploadFile f (Inr resource) get) = 60000 \<and>
       outcome (uploadFile f (Inr resource) get) = Inl (NotActiveError PROCESSING))"
proof -
  have counts: "statusRequests (uploadFile f (Inr resource) get) \<le> 13 \<and>
      waitedMs (uploadFile f (Inr resource) get) =
        5000 * (statusRequests (uploadFile f (Inr resource) get) - 1)"
    using uploadFile_counts [of f "Inr resource" get] by (simp add: maxRetries_def)
  have settled: "statusRequests (uploadFile f (Inr resource) get) = k + 1 \<and>
       outcome (uploadFile f (Inr resource) get) = finalState f g \<and>
       (res_state g = ACTIVE \<longrightarrow> (\<exists>info. finalState f g = Inr info \<and> uri info = res_uri g)) \<and>
       (res_state g = FAILED \<longrightarrow> finalState f g = Inl ProcessingFailedError)"
    if k: "k \<le> 12" and before: "\<forall>i<k. \<exists>r. get i = Inr r \<and> res_state r = PROCESSING"
      and at: "get k = Inr g" and fin: "res_state g \<noteq> PROCESSING" for k g
  proof -
    obtain r0 where r0: "get 0 = Inr r0"
    proof (cases "k = 0")
      case True
      with at that show ?thesis by simp
    next
      case False
      with before that show ?thesis by auto
    qed
    from k have "k \<le> maxRetries" by (simp add: maxRetries_def)
    from pollLoop_settles [OF r0 _ this before at fin]
    have "pollLoop get r0 0 = (Inr g, k)" by simp
    with r0 show ?thesis
      by (simp add: uploadFile_def finalState_def)
  qed
  have exhausted: "statusRequests (uploadFile f (Inr resource) get) = 13 \<and>
       waitedMs (uploadFile f (Inr resource) get) = 60000 \<and>
       outcome (uploadFile f (Inr resource) get) = Inl (NotActiveError PROCESSING)"
    if all: "\<forall>i\<le>12. \<exists>r. get i = Inr r \<and> res_state r = PROCESSING"
  proof -
    from all obtain r0 where r0: "get 0 = Inr r0" by auto
    from all obtain g where g: "get maxRetries = Inr g" "res_state g = PROCESSING"
      by (auto simp: maxRetries_def)
    from all have "\<forall>i\<le>maxRetries. \<exists>r. get i = Inr r \<and> res_state r = PROCESSING"
      by (simp add: maxRetries_def)
    from pollLoop_exhausts [OF r0 _ this]
    have "pollLoop get r0 0 = (get maxRetries, maxRetries)" by simp
    with r0 g show ?thesis
      by (simp add: uploadFile_def finalState_def maxRetries_def)
  qed
  from counts settled exhausted show ?thesis by blast
qed


text \<open>
  The answers processing, processing, active give the handle after exactly 3
  requests; answers that are always processing give the timeout after 13
  requests; the answers processing, failed give the processing failure.
\<close>

theorem C5_polling_examples:
  "statusRequests (uploadFile videoA (Inr ''files/a'')
      (statusStream [PROCESSING, PROCESSING, ACTIVE] FAILED)) = 3 \<and>
   outcome (uploadFile videoA (Inr ''files/a'')
      (statusStream [PROCESSING, PROCESSING, ACTIVE] FAILED)) = Inr infoA \<and>
   statusRequests (uploadFile videoA (Inr ''files/a'') (statusStream [] PROCESSING)) = 13 \<and>
   waitedMs (uploadFile videoA (Inr ''files/a'') (statusStream [] PROCESSING)) = 60000 \<and>
   outcome (uploadFile videoA (Inr ''files/a'') (statusStream [] PROCESSING))
     = Inl (NotActiveError PROCESSING) \<and>
   outcome (uploadFile videoA (Inr ''files/a'') (statusStream [PROCESSING, FAILED] ACTIVE))
     = Inl ProcessingFailedError"
proof -
  let ?ppa = "statusStream [PROCESSING, PROCESSING, ACTIVE] FAILED"
  let ?pf = "statusStream [PROCESSING, FAILED] ACTIVE"
  let ?p = "statusStream [] PROCESSING"
  let ?active = "\<lparr>res_state = ACTIVE, res_uri = ''files/a'', res_mimeType = Some ''video/mp4''\<rparr>"
  let ?failed = "\<lparr>res_state = FAILED, res_uri = ''files/a'', res_mimeType = Some ''video/mp4''\<rparr>"
  have ppa_before: "\<forall>i<2. \<exists>r. ?ppa i = Inr r \<and> res_state r = PROCESSING"
    by (auto simp: statusStream_def nth_Cons')
  have ppa_at: "?ppa 2 = Inr ?active"
    by (simp add: statusStream_def)
  have pf_before: "\<forall>i<1. \<exists>r. ?pf i = Inr r \<and> res_state r = PROCESSING"
    by (simp add: statusStream_def)
  have pf_at: "?pf 1 = Inr ?failed"
    by (simp add: statusStream_def)
  have p_all: "\<forall>i\<le>12. \<exists>r. ?p i = Inr r \<and> res_state r = PROCESSING"
    by (simp add: statusStream_def)
  have ready: "finalState videoA ?active = Inr infoA"
    by (simp add: finalState_def infoA_def)
  from C5_polling [of videoA "''files/a''" ?ppa]
  have "2 \<le> (12::nat) \<and> (\<forall>i<2. \<exists>r. ?ppa i = Inr r \<and> res_state r = PROCESSING) \<and>
      ?ppa 2 = Inr ?active \<and> res_state ?active \<noteq> PROCESSING \<longrightarrow>
      statusRequests (uploadFile videoA (Inr ''files/a'') ?ppa) = 2 + 1 \<and>
      outcome (uploadFile videoA (Inr ''files/a'') ?ppa) = finalState videoA ?active"
    by blast
  with ppa_before ppa_at
  have one: "statusRequests (uploadFile videoA (Inr ''files/a'') ?ppa) = 2 + 1 \<and>
      outcome (uploadFile videoA (Inr ''files/a'') ?ppa) = finalState videoA ?active"
    by simp
  from C5_polling [of videoA "''files/a''" ?pf]
  have "1 \<le> (12::nat) \<and> (\<forall>i<1. \<exists>r. ?pf i = Inr r \<and> res_state r = PROCESSING) \<and>
      ?pf 1 = Inr ?failed \<and> res_state ?failed \<noteq> PROCESSING \<longrightarrow>
      outcome (uploadFile videoA (Inr ''files/a'') ?pf) = finalState videoA ?failed \<and>
      (res_state ?failed = FAILED \<longrightarrow> finalState videoA ?failed = Inl ProcessingFailedError)"
    by blast
  with pf_before pf_at
  have two: "outcome (uploadFile videoA (Inr ''files/a'') ?pf) = Inl ProcessingFailedError"
    by simp
  from C5_polling [of videoA "''files/a''" ?p] p_all
  have three: "statusRequests (uploadFile videoA (Inr ''files/a'') ?p) = 13 \<and>
      waitedMs (uploadFile videoA (Inr ''files/a'') ?p) = 60000 \<and>
      outcome (uploadFile videoA (Inr ''files/a'') ?p) = Inl (NotActiveError PROCESSING)"
    by blast
  from one two three ready show ?thesis by simp
qed

section \<open>Claim C6: the active caption\<close>

text \<open>
  \<open>find\<close> on the reversed list yields the entry of the original list with the
  greatest index among those that satisfy the test.
\<close>

lemma find_rev_last:
  "i < length xs \<Longrightarrow> P (xs ! i) \<Longrightarrow> (\<forall>j. i < j \<and> j < length xs \<longrightarrow> \<not> P (xs ! j)) \<Longrightarrow>
   find P (rev xs) = Some (xs ! i)"
proof (induction xs rule: rev_induct)
  case Nil
  then show ?case by simp
next
  case (snoc x xs)
  show ?case
  proof (cases "i = length xs")
    case True
    with snoc.prems show ?thesis by simp
  next
    case False
    with snoc.prems have i: "i < length xs" by simp
    with snoc.prems have Pi: "P (xs ! i)" by (simp add: nth_append)
    from i have "i < length xs \<and> length xs < length (xs @ [x])" by simp
    with snoc.prems(3) have "\<not> P ((xs @ [x]) ! length xs)" by blast
    then have nx: "\<not> P x" by simp
    have "\<forall>j. i < j \<and> j < length xs \<longrightarrow> \<not> P (xs ! j)"
    proof (intro allI impI)
      fix j assume j: "i < j \<and> j < length xs"
      then have "i < j \<and> j < length (xs @ [x])" by simp
      with snoc.prems(3) have "\<not> P ((xs @ [x]) ! j)" by blast
      with j show "\<not> P (xs ! j)" by (simp add: nth_append)
    qed
    with snoc.IH i Pi have "find P (rev xs) = Some (xs ! i)" by simp
    with nx i show ?thesis by (simp add: nth_append)
  qed
qed

lemma updateTime_caption:
  "currentCaption (updateTime tts p (Some tcs) (Some v)) =
     (case find (atOrBefore tts (currentTime v)) (rev tcs) of
        None \<Rightarrow> None
      | Some t \<Rightarrow> text_field t)"
  by (simp add: updateTime_def timecodeListReversed_def Let_def)

text \<open>
  C6: on a time update with a list \<open>tcs\<close> and the video at playback time
  \<open>currentTime v\<close>, the caption becomes the text of the first entry of the
  reversed list whose parsed time is at most the playback time. It is cleared
  when no entry qualifies, and otherwise it is the text of the qualifying entry
  that comes last in list order. This holds for every parser \<open>tts\<close>.
\<close>

theorem C6_active_caption:
  "currentCaption (updateTime tts p (Some tcs) (Some v)) =
     (case find (atOrBefore tts (currentTime v)) (rev tcs) of
        None \<Rightarrow> None
      | Some t \<Rightarrow> text_field t) \<and>
   ((\<forall>t \<in> set tcs. \<not> atOrBefore tts (currentTime v) t) \<longrightarrow>
      currentCaption (updateTime tts p (Some tcs) (Some v)) = None) \<and>
   (\<forall>i < length tcs.
      atOrBefore tts (currentTime v) (tcs ! i) \<and>
      (\<forall>j. i < j \<and> j < length tcs \<longrightarrow> \<not> atOrBefore tts (currentTime v) (tcs ! j)) \<longrightarrow>
      currentCaption (updateTime tts p (Some tcs) (Some v)) = text_field (tcs ! i))"
proof (intro conjI impI allI)
  show "currentCaption (updateTime tts p (Some tcs) (Some v)) =
     (case find (atOrBefore tts (currentTime v)) (rev tcs) of
        None \<Rightarrow> None
      | Some t \<Rightarrow> text_field t)"
    by (rule updateTime_caption)
next
  assume "\<forall>t \<in> set tcs. \<not> atOrBefore tts (currentTime v) t"
  then have "find (atOrBefore tts (currentTime v)) (rev tcs) = None"
    by (simp add: find_None_iff)
  then show "currentCaption (updateTime tts p (Some tcs) (Some v)) = None"
    by (simp add: updateTime_caption)
next
  fix i
  assume "i < length tcs"
    and "atOrBefore tts (currentTime v) (tcs ! i) \<and>
      (\<forall>j. i < j \<and> j < length tcs \<longrightarrow> \<not> atOrBefore tts (currentTime v) (tcs ! j))"
  then have "find (atOrBefore tts (currentTime v)) (rev tcs) = Some (tcs ! i)"
    by (simp add: find_rev_last)
  then show "currentCaption (updateTime tts p (Some tcs) (Some v)) = text_field (tcs ! i)"
    by (simp add: updateTime_caption)
qed


lemma timeToSecs_samples:
  "timeToSecs ''0:05'' = Some 5" "timeToSecs ''0:10'' = Some 10"
  by (simp_all add: timeToSecs_def parsePart_def digitValue_def)

lemma twoCaptions_candidates:
  "atOrBefore timeToSecs now (twoCaptions ! 0) = (5 \<le> now)"
  "atOrBefore timeToSecs now (twoCaptions ! 1) = (10 \<le> now)"
  "atOrBefore timeToSecs now (twoCaptions ! Suc 0) = (10 \<le> now)"
  by (simp_all add: atOrBefore_def twoCaptions_def timeToSecs_samples)

text \<open>
  With the annotations at 0:05 and 0:10, in this order, and the parser of the
  specification: at 7 seconds the caption is that of the entry at 0:05, at 12
  seconds that of the entry at 0:10, and at 3 seconds there is none.
\<close>

theorem C6_active_caption_examples:
  "currentCaption (updateTime timeToSecs freshPlayer (Some twoCaptions) (Some (videoAt 7)))
     = Some ''first'' \<and>
   currentCaption (updateTime timeToSecs freshPlayer (Some twoCaptions) (Some (videoAt 12)))
     = Some ''second'' \<and>
   currentCaption (updateTime timeToSecs freshPlayer (Some twoCaptions) (Some (videoAt 3)))
     = None"
proof -
  have len: "length twoCaptions = 2"
    by (simp add: twoCaptions_def)
  have texts: "text_field (twoCaptions ! 0) = Some ''first''"
    "text_field (twoCaptions ! 1) = Some ''second''"
    by (simp_all add: twoCaptions_def)
  have later: "j = 1" if "0 < j \<and> j < length twoCaptions" for j
    using that len by simp
  have members: "t = twoCaptions ! 0 \<or> t = twoCaptions ! 1" if "t \<in> set twoCaptions" for t
    using that by (auto simp: twoCaptions_def)
  have seven: "currentCaption
      (updateTime timeToSecs freshPlayer (Some twoCaptions) (Some (videoAt 7)))
      = text_field (twoCaptions ! 0)"
  proof -
    from C6_active_caption [of timeToSecs freshPlayer twoCaptions "videoAt 7"]
    have "0 < length twoCaptions \<longrightarrow>
        atOrBefore timeToSecs (currentTime (videoAt 7)) (twoCaptions ! 0) \<and>
        (\<forall>j. 0 < j \<and> j < length twoCaptions \<longrightarrow>
           \<not> atOrBefore timeToSecs (currentTime (videoAt 7)) (twoCaptions ! j)) \<longrightarrow>
        currentCaption (updateTime timeToSecs freshPlayer (Some twoCaptions) (Some (videoAt 7)))
          = text_field (twoCaptions ! 0)"
      by blast
    moreover have "\<forall>j. 0 < j \<and> j < length twoCaptions \<longrightarrow>
           \<not> atOrBefore timeToSecs (currentTime (videoAt 7)) (twoCaptions ! j)"
    proof (intro allI impI)
      fix j assume "0 < j \<and> j < length twoCaptions"
      then have "j = 1" by (rule later)
      then show "\<not> atOrBefore timeToSecs (currentTime (videoAt 7)) (twoCaptions ! j)"
        by (simp add: videoAt_def twoCaptions_candidates)
    qed
    ultimately show ?thesis
      using len by (simp add: videoAt_def twoCaptions_candidates)
  qed
  have twelve: "currentCaption
      (updateTime timeToSecs freshPlayer (Some twoCaptions) (Some (videoAt 12)))
      = text_field (twoCaptions ! 1)"
  proof -
    from C6_active_caption [of timeToSecs freshPlayer twoCaptions "videoAt 12"]
    have "1 < length twoCaptions \<longrightarrow>
        atOrBefore timeToSecs (currentTime (videoAt 12)) (twoCaptions ! 1) \<and>
        (\<forall>j. 1 < j \<and> j < length twoCaptions \<longrightarrow>
           \<not> atOrBefore timeToSecs (currentTime (videoAt 12)) (twoCaptions ! j)) \<longrightarrow>
        currentCaption (updateTime timeToSecs freshPlayer (Some twoCaptions) (Some (videoAt 12)))
          = text_field (twoCaptions ! 1)"
      by blast
    moreover have "\<forall>j. 1 < j \<and> j < length twoCaptions \<longrightarrow>
           \<not> atOrBefore timeToSecs (currentTime (videoAt 12)) (twoCaptions ! j)"
      using len by auto
    moreover have "atOrBefore timeToSecs (currentTime (videoAt 12)) (twoCaptions ! 1)"
      by (simp add: videoAt_def twoCaptions_candidates)
    moreover have "1 < length twoCaptions"
      using len by simp
    ultimately show ?thesis
      by blast
  qed
  have three: "currentCaption
      (updateTime timeToSecs freshPlayer (Some twoCaptions) (Some (videoAt 3))) = None"
  proof -
    have "\<forall>t \<in> set twoCaptions. \<not> atOrBefore timeToSecs (currentTime (videoAt 3)) t"
    proof
      fix t assume "t \<in> set twoCaptions"
      then have "t = twoCaptions ! 0 \<or> t = twoCaptions ! 1" by (rule members)
      then show "\<not> atOrBefore timeToSecs (currentTime (videoAt 3)) t"
        by (auto simp: videoAt_def twoCaptions_candidates)
    qed
    with C6_active_caption [of timeToSecs freshPlayer twoCaptions "videoAt 3"]
    show ?thesis by blast
  qed
  from seven twelve three texts show ?thesis by simp
qed

section \<open>Claim C9: \<open>formatTime\<close>\<close>

lemma decimal_small: "m < 10 \<Longrightarrow> decimal m = [digitChar m]"
  by simp

lemma decimal_two: "10 \<le> m \<Longrightarrow> m < 100 \<Longrightarrow> decimal m = [digitChar (m div 10), digitChar (m mod 10)]"
proof -
  assume a: "10 \<le> m" and b: "m < 100"
  then have "m div 10 < 10" by simp
  then have "decimal (m div 10) = [digitChar (m div 10)]" by (rule decimal_small)
  moreover from a have "decimal m = decimal (m div 10) @ [digitChar (m mod 10)]"
    by (subst decimal.simps) simp
  ultimately show ?thesis by simp
qed

lemma padStart_seconds:
  "m < 60 \<Longrightarrow> padStart 2 (CHR ''0'') (decimal m) = [digitChar (m div 10), digitChar (m mod 10)]"
proof (cases "m < 10")
  case True
  then have "decimal m = [digitChar m]" by (rule decimal_small)
  moreover have "digitChar 0 = CHR ''0''" by (simp add: digitChar_def)
  ultimately show ?thesis using True by (simp add: padStart_def)
next
  case False
  assume "m < 60"
  with False have "decimal m = [digitChar (m div 10), digitChar (m mod 10)]"
    by (simp add: decimal_two)
  then show ?thesis by (simp add: padStart_def)
qed

lemma floor_minutes: "\<lfloor>(t::real) / 60\<rfloor> = \<lfloor>t\<rfloor> div 60"
  using floor_divide_real_eq_div [of 60 t] by simp

lemma floor_seconds: "0 \<le> t \<Longrightarrow> jsRemainder (Num t) (Num 60) = Num r \<Longrightarrow> \<lfloor>r\<rfloor> = \<lfloor>t\<rfloor> mod 60"
proof -
  assume t: "0 \<le> t" and r: "jsRemainder (Num t) (Num 60) = Num r"
  from t have "\<not> t / 60 < 0" by simp
  with r have "r = t - of_int (60 * \<lfloor>t / 60\<rfloor>)"
    by (simp add: jsRemainder_def)
  then have "\<lfloor>r\<rfloor> = \<lfloor>t\<rfloor> - 60 * \<lfloor>t / 60\<rfloor>"
    by (simp only: floor_diff_of_int)
  then show ?thesis
    by (simp add: floor_minutes minus_mult_div_eq_mod)
qed

text \<open>
  C9, as stated, covers every number that is not negative. The duration of a
  medium without a known end is \<open>Infinity\<close>, and for it \<open>formatTime\<close> gives
  no minutes and seconds.
\<close>

theorem C9_infinite_time:
  "formatTime PosInfinity = ''Infinity:NaN''"
  by (simp add: formatTime_def jsDivide_def jsRemainder_def padStart_def)

text \<open>
  C9, amended: for a finite time \<open>t\<close> of at least 0 and less than \<open>2^53\<close>
  seconds, \<open>formatTime\<close> writes the whole minutes of \<open>t\<close> in decimal, however
  many digits they take, then a colon, then the whole seconds left over as
  exactly two digits; the fraction of a second is dropped.
\<close>

theorem C9_formatTime:
  "0 \<le> t \<Longrightarrow> t < 2 ^ 53 \<Longrightarrow>
   formatTime (Num t) =
     decimal (nat \<lfloor>t\<rfloor> div 60) @ '':'' @
     [digitChar (nat \<lfloor>t\<rfloor> mod 60 div 10), digitChar (nat \<lfloor>t\<rfloor> mod 60 mod 10)]"
proof -
  assume t: "0 \<le> t"
  then have fl: "0 \<le> \<lfloor>t\<rfloor>" by simp
  from fl have "0 \<le> \<lfloor>t\<rfloor> div 60"
    by (simp add: pos_imp_zdiv_nonneg_iff)
  then have mins: "floorString (jsDivide (Num t) (Num 60)) = decimal (nat \<lfloor>t\<rfloor> div 60)"
    using fl by (simp add: jsDivide_def numberToString_def floor_minutes nat_div_distrib)
  obtain r where r: "jsRemainder (Num t) (Num 60) = Num r"
    by (simp add: jsRemainder_def)
  from fl have nonneg: "0 \<le> \<lfloor>t\<rfloor> mod 60"
    by simp
  have "nat (\<lfloor>t\<rfloor> mod 60) = nat \<lfloor>t\<rfloor> mod 60"
    using fl by (simp add: nat_mod_distrib)
  with nonneg floor_seconds [OF t r]
  have "numberToString \<lfloor>r\<rfloor> = decimal (nat \<lfloor>t\<rfloor> mod 60)"
    by (simp add: numberToString_def)
  with r have secs: "floorString (jsRemainder (Num t) (Num 60)) = decimal (nat \<lfloor>t\<rfloor> mod 60)"
    by simp
  have "nat \<lfloor>t\<rfloor> mod 60 < 60" by simp
  then have "padStart 2 (CHR ''0'') (decimal (nat \<lfloor>t\<rfloor> mod 60)) =
      [digitChar (nat \<lfloor>t\<rfloor> mod 60 div 10), digitChar (nat \<lfloor>t\<rfloor> mod 60 mod 10)]"
    by (rule padStart_seconds)
  with mins secs show ?thesis
    by (simp add: formatTime_def)
qed

text \<open>90 seconds give 1:30, 5 seconds give 0:05 and 65.9 seconds give 1:05.\<close>

theorem C9_formatTime_examples:
  "(0::real) \<le> 90 \<and> (90::real) < 2 ^ 53 \<and> formatTime (Num 90) = ''1:30'' \<and>
   (0::real) \<le> 5 \<and> (5::real) < 2 ^ 53 \<and> formatTime (Num 5) = ''0:05'' \<and>
   (0::real) \<le> 659 / 10 \<and> (659 / 10 :: real) < 2 ^ 53 \<and> formatTime (Num (659 / 10)) = ''1:05''"
proof -
  have d: "decimal 1 = ''1''" "decimal 0 = ''0''"
    by (simp_all add: digitChar_def)
  have a: "(0::real) \<le> 90" and b: "(0::real) \<le> 5" and c: "(0::real) \<le> 659 / 10"
    by simp_all
  have a': "(90::real) < 2 ^ 53" and b': "(5::real) < 2 ^ 53" and c': "(659 / 10 :: real) < 2 ^ 53"
    by simp_all
  have fc: "\<lfloor>659 / 10 :: real\<rfloor> = 65" by simp
  from C9_formatTime [OF a a'] have "formatTime (Num 90) = ''1:30''"
    by (simp add: d digitChar_def)
  moreover from C9_formatTime [OF b b'] have "formatTime (Num 5) = ''0:05''"
    by (simp add: d digitChar_def)
  moreover from C9_formatTime [OF c c'] have "formatTime (Num (659 / 10)) = ''1:05''"
    by (simp add: fc d digitChar_def)
  ultimately show ?thesis using a' b' c' by simp
qed

end
